theory Spec2Isabelle
  imports Complex_Main "HOL-Library.Sublist" "HOL-Library.AList" "HOL-Library.Option_ord" "HOL-Library.Multiset"
begin

section \<open>Python string primitives\<close>

text \<open>
  Python strings are sequences of code points; the model keeps the code points below 256
  (Latin-1), one \<^typ>\<open>char\<close> each. On that range \<open>str.lower\<close> moves \<open>A-Z\<close> and the
  accented capitals \<open>0xC0-0xDE\<close> (except the multiplication sign \<open>0xD7\<close>) up by 32 and leaves
  every other code point alone.
\<close>

definition lower_char :: "char \<Rightarrow> char" where
  "lower_char c = (let n = (of_char c :: nat) in
     if (65 \<le> n \<and> n \<le> 90) \<or> (192 \<le> n \<and> n \<le> 214) \<or> (216 \<le> n \<and> n \<le> 222)
     then char_of (n + 32) else c)"

definition lower :: "string \<Rightarrow> string" where
  "lower s = map lower_char s"

text \<open>\<open>str.isspace\<close> on one code point below 256: the set \<open>str.split()\<close> and \<open>str.strip()\<close> use.\<close>

definition isspace :: "char \<Rightarrow> bool" where
  "isspace c = (let n = (of_char c :: nat) in
     (9 \<le> n \<and> n \<le> 13) \<or> (28 \<le> n \<and> n \<le> 32) \<or> n = 133 \<or> n = 160)"

text \<open>\<open>old in s\<close>: \<open>old\<close> occurs in \<open>s\<close> as a contiguous run (the empty string always does).\<close>

fun py_in :: "string \<Rightarrow> string \<Rightarrow> bool" where
  "py_in old [] = (old = [])"
| "py_in old (c # cs) = (prefix old (c # cs) \<or> py_in old cs)"

text \<open>
  \<open>s.replace(old, new)\<close>: the occurrences of \<open>old\<close> are found from the left and do not
  overlap; the text put in is not scanned again. An empty \<open>old\<close> puts \<open>new\<close> around every
  code point.
\<close>

fun replace :: "string \<Rightarrow> string \<Rightarrow> string \<Rightarrow> string" where
  "replace old new [] = (if old = [] then new else [])"
| "replace old new (c # cs) =
     (if old = [] then new @ c # replace old new cs
      else if prefix old (c # cs) then new @ replace old new (drop (length old - 1) cs)
      else c # replace old new cs)"

text \<open>\<open>s.strip()\<close>, \<open>s.split()\<close> (no argument: runs of whitespace separate the words, none is
  empty) and \<open>sep.join(words)\<close>.\<close>

definition strip :: "string \<Rightarrow> string" where
  "strip s = rev (dropWhile isspace (rev (dropWhile isspace s)))"

fun split_from :: "string \<Rightarrow> string \<Rightarrow> string list" where
  "split_from w [] = (if w = [] then [] else [w])"
| "split_from w (c # cs) =
     (if isspace c then (if w = [] then split_from [] cs else w # split_from [] cs)
      else split_from (w @ [c]) cs)"

definition split :: "string \<Rightarrow> string list" where
  "split s = split_from [] s"

fun join :: "string \<Rightarrow> string list \<Rightarrow> string" where
  "join sep [] = []"
| "join sep [w] = w"
| "join sep (w # v # ws) = w @ sep @ join sep (v # ws)"

text \<open>
  \<open>s.title()\<close>: a letter that follows a letter is lowered, a letter that follows anything
  else is raised. The source applies it to its own list of area names only, which are made
  of \<open>a-z\<close> and spaces, so raising is modelled on \<open>a-z\<close>.
\<close>

definition is_alpha :: "char \<Rightarrow> bool" where
  "is_alpha c = (let n = (of_char c :: nat) in (65 \<le> n \<and> n \<le> 90) \<or> (97 \<le> n \<and> n \<le> 122))"

definition upper_char :: "char \<Rightarrow> char" where
  "upper_char c = (let n = (of_char c :: nat) in
     if 97 \<le> n \<and> n \<le> 122 then char_of (n - 32) else c)"

fun title_from :: "bool \<Rightarrow> string \<Rightarrow> string" where
  "title_from prev [] = []"
| "title_from prev (c # cs) =
     (if is_alpha c then (if prev then lower_char c else upper_char c) # title_from True cs
      else c # title_from False cs)"

definition title :: "string \<Rightarrow> string" where
  "title s = title_from False s"

section \<open>Civic knowledge store\<close>

text \<open>
  \<open>civic_data\<close> and \<open>pincode_mapping\<close> are JSON objects read at start-up; a JSON object keeps
  the order of its keys and the loops below run in that order, so each is an association
  list. Of a zone only the two keys the classifier reads are kept, with the default \<open>[]\<close>
  of \<open>zone_data.get\<close> for a key that is absent.
\<close>

record zone_data =
  wards :: "int list"
  ward_names :: "string list"

record dept_data =
  main_contact :: "string option"
  services :: "string list option"

record civic_data =
  zones_complete :: "(string \<times> zone_data) list"
  departments_complete :: "(string \<times> dept_data) list"

type_synonym pincode_mapping = "(string \<times> string) list"

text \<open>The embedded data of \<open>get_fallback_civic_data\<close> and \<open>get_fallback_pincode_data\<close>.\<close>

definition get_fallback_civic_data :: civic_data where
  "get_fallback_civic_data = \<lparr>
     zones_complete = [],
     departments_complete = [
       (''Greater_Chennai_Corporation'',
          \<lparr>main_contact = Some ''1913'',
           services = Some [''Garbage collection'', ''Road maintenance'', ''Building approvals'']\<rparr>),
       (''Chennai_Metro_Water'',
          \<lparr>main_contact = Some ''044-4567-4567'',
           services = Some [''Water supply'', ''Sewerage'', ''New connections'']\<rparr>),
       (''TANGEDCO'',
          \<lparr>main_contact = Some ''94987-94987'',
           services = Some [''Electricity supply'', ''Power failures'', ''Billing'']\<rparr>),
       (''TNSTC'',
          \<lparr>main_contact = Some ''1800-599-1500'',
           services = Some [''Bus transport'', ''Route complaints'']\<rparr>)]\<rparr>"

definition get_fallback_pincode_data :: pincode_mapping where
  "get_fallback_pincode_data = [
     (''600001'', ''Parrys Corner''),
     (''600004'', ''Mylapore''),
     (''600020'', ''Adyar''),
     (''600017'', ''T. Nagar''),
     (''600040'', ''Anna Nagar'')]"

section \<open>Query classifier\<close>

text \<open>The four shapes of the dictionary \<open>identify_area_from_query\<close> returns, one per \<open>"type"\<close>.\<close>

datatype area_info =
    Zone string string "int list" "string list"
  | PincodeArea string string
  | Area string
  | General string

fun area_type :: "area_info \<Rightarrow> string" where
  "area_type (Zone n z w wn) = ''zone''"
| "area_type (PincodeArea n p) = ''pincode_area''"
| "area_type (Area n) = ''area''"
| "area_type (General n) = ''general''"

fun area_name :: "area_info \<Rightarrow> string" where
  "area_name (Zone n z w wn) = n"
| "area_name (PincodeArea n p) = n"
| "area_name (Area n) = n"
| "area_name (General n) = n"

definition zone_display :: "string \<Rightarrow> string" where
  "zone_display zone_name = replace ''Zone '' [] (replace ''_'' '' '' zone_name)"

fun check_zones :: "string \<Rightarrow> (string \<times> zone_data) list \<Rightarrow> area_info option" where
  "check_zones query_lower [] = None"
| "check_zones query_lower ((zone_name, zd) # rest) =
     (if py_in (lower (zone_display zone_name)) query_lower
      then Some (Zone (zone_display zone_name) zone_name (wards zd) (ward_names zd))
      else check_zones query_lower rest)"

fun check_pincode :: "string \<Rightarrow> string \<Rightarrow> pincode_mapping \<Rightarrow> area_info option" where
  "check_pincode query query_lower [] = None"
| "check_pincode query query_lower ((pincode, area) # rest) =
     (if py_in pincode query \<or> py_in (lower area) query_lower
      then Some (PincodeArea area pincode)
      else check_pincode query query_lower rest)"

definition common_areas :: "string list" where
  "common_areas = [
     ''adyar'', ''t nagar'', ''anna nagar'', ''velachery'', ''mylapore'',
     ''kodambakkam'', ''nungambakkam'', ''guindy'', ''chrompet'', ''tambaram'',
     ''perambur'', ''royapuram'', ''egmore'', ''kilpauk'', ''saidapet'']"

fun check_common_areas :: "string \<Rightarrow> string list \<Rightarrow> area_info option" where
  "check_common_areas query_lower [] = None"
| "check_common_areas query_lower (area # rest) =
     (if py_in area query_lower then Some (Area (title area))
      else check_common_areas query_lower rest)"

definition identify_area_from_query :: "civic_data \<Rightarrow> pincode_mapping \<Rightarrow> string \<Rightarrow> area_info" where
  "identify_area_from_query cd pm query =
     (let query_lower = lower query in
      case check_zones query_lower (zones_complete cd) of
        Some a \<Rightarrow> a
      | None \<Rightarrow>
         (case check_pincode query query_lower pm of
            Some a \<Rightarrow> a
          | None \<Rightarrow>
             (case check_common_areas query_lower common_areas of
                Some a \<Rightarrow> a
              | None \<Rightarrow> General ''Chennai'')))"

definition issue_keywords :: "(string \<times> string list) list" where
  "issue_keywords = [
     (''water_supply'', [''water'', ''supply'', ''shortage'', ''leak'', ''pipe'', ''connection'', ''pressure'']),
     (''electricity'', [''power'', ''electricity'', ''outage'', ''billing'', ''meter'', ''connection'']),
     (''garbage_collection'', [''garbage'', ''waste'', ''collection'', ''bin'', ''sweeping'', ''cleaning'']),
     (''roads'', [''road'', ''pothole'', ''street'', ''repair'', ''maintenance'']),
     (''transport'', [''bus'', ''transport'', ''route'', ''fare'', ''conductor'', ''driver''])]"

fun any_keyword :: "string \<Rightarrow> string list \<Rightarrow> bool" where
  "any_keyword query_lower [] = False"
| "any_keyword query_lower (keyword # rest) =
     (py_in keyword query_lower \<or> any_keyword query_lower rest)"

fun first_issue :: "string \<Rightarrow> (string \<times> string list) list \<Rightarrow> string" where
  "first_issue query_lower [] = ''general''"
| "first_issue query_lower ((issue_type, keywords) # rest) =
     (if any_keyword query_lower keywords then issue_type
      else first_issue query_lower rest)"

definition identify_issue_type :: "string \<Rightarrow> string" where
  "identify_issue_type query = first_issue (lower query) issue_keywords"

section \<open>Response cache\<close>

subsection \<open>Cache key\<close>

definition chars_to_remove :: string where
  "chars_to_remove = ''.,!?;:''"

definition area_variations :: "(string \<times> string) list" where
  "area_variations = [
     (''t nagar'', ''t. nagar''),
     (''tnagar'', ''t. nagar''),
     (''anna nagar'', ''anna nagar''),
     (''annanagar'', ''anna nagar''),
     (''adyar'', ''adyar''),
     (''velachery'', ''velachery'')]"

definition remove_chars :: "string \<Rightarrow> string \<Rightarrow> string" where
  "remove_chars cs s = foldl (\<lambda>normalized c. replace [c] [] normalized) s cs"

definition apply_variations :: "(string \<times> string) list \<Rightarrow> string \<Rightarrow> string" where
  "apply_variations tab s = foldl (\<lambda>normalized (variation, standard). replace variation standard normalized) s tab"

definition normalize_query :: "string \<Rightarrow> string" where
  "normalize_query query =
     (let normalized = strip (lower query);
          normalized = join '' '' (split normalized);
          normalized = remove_chars chars_to_remove normalized
      in apply_variations area_variations normalized)"

text \<open>
  \<open>hashlib.md5(...).hexdigest()\<close> is a library function; the model takes it as the
  parameter \<open>md5\<close>. Code points below 256 always encode to UTF-8, so the key is always made.
\<close>

definition generate_cache_key :: "(string \<Rightarrow> string) \<Rightarrow> string \<Rightarrow> string" where
  "generate_cache_key md5 query = ''civic_query_'' @ md5 (normalize_query query)"

subsection \<open>State\<close>

text \<open>
  A cached item is the dictionary \<open>cache_response\<close> builds and \<open>json.load\<close> gives back.
  The lookup reads two of its keys: \<open>"response"\<close> by subscript, so an item without it
  raises \<open>KeyError\<close> (\<open>None\<close> below), and \<open>"timestamp"\<close> through \<open>fromisoformat\<close>. A
  timestamp is kept as the instant it denotes, in microseconds; \<open>None\<close> stands for a key
  that is absent or a value that \<open>_is_cache_valid\<close> rejects (no ISO text of a naive
  instant). \<open>isoformat\<close> of a naive instant is fixed-width up to the optional microsecond
  suffix, so the order of the texts is the order of the instants.
\<close>

record cached_item =
  query :: string
  response :: "string option"
  department :: string
  sources :: "string list"
  timestamp :: "int option"
  cache_key :: string

text \<open>
  What \<open>json.load\<close> makes of a file of the cache directory: it raises \<open>JSONDecodeError\<close>,
  or gives a JSON value that is no object (a list, a number, a string, \<open>null\<close>), or gives
  an object.
\<close>

datatype file_content = Undecodable | NotObject | Object cached_item

record cache_file =
  mtime :: int
  content :: file_content

text \<open>
  The directory lists the \<open>*.json\<close> files by stem, in the order \<open>glob\<close> gives them. The
  memory cache is a Python dictionary: assignment to a key that is there keeps its place,
  a new key goes to the end.
\<close>

record cache_module =
  ttl_hours :: int
  memory_cache :: "(string \<times> cached_item) list"
  cache_dir :: "(string \<times> cache_file) list"
  hits :: nat
  misses :: nat
  total_requests :: nat

text \<open>
  What one call sees of the outside: the clock (\<open>datetime.now()\<close>, also the modification
  time a write leaves) and which file operations raise \<open>OSError\<close>, by stem.
\<close>

record io =
  now :: int
  read_error :: "string \<Rightarrow> bool"
  write_error :: "string \<Rightarrow> bool"
  unlink_error :: "string \<Rightarrow> bool"

datatype error = KeyError | AttributeError | OSError | TypeError

definition new_cache :: "int \<Rightarrow> cache_module" where
  "new_cache ttl = \<lparr>ttl_hours = ttl, memory_cache = [], cache_dir = [],
     hits = 0, misses = 0, total_requests = 0\<rparr>"

subsection \<open>Lookup\<close>

definition hour :: int where
  "hour = 3600000000"

definition is_cache_valid :: "int \<Rightarrow> int \<Rightarrow> cached_item \<Rightarrow> bool" where
  "is_cache_valid now_t ttl item =
     (case timestamp item of
        None \<Rightarrow> False
      | Some cached_time \<Rightarrow> now_t < cached_time + ttl * hour)"

definition count_miss :: "cache_module \<Rightarrow> (error + string option) \<times> cache_module" where
  "count_miss s = (Inr None, s\<lparr>misses := misses s + 1\<rparr>)"

text \<open>\<open>cache_file.unlink()\<close> and then the fall through to the miss at the end of the \<open>try\<close>.\<close>

definition unlink_then_miss :: "io \<Rightarrow> string \<Rightarrow> cache_module \<Rightarrow> (error + string option) \<times> cache_module" where
  "unlink_then_miss env key s =
     (if unlink_error env key then (Inl OSError, s)
      else count_miss (s\<lparr>cache_dir := AList.delete key (cache_dir s)\<rparr>))"

text \<open>
  The block under \<open># Check persistent cache\<close>. The inner handler takes \<open>JSONDecodeError\<close>
  and \<open>KeyError\<close> only: it deletes the file and falls through to the miss. Every other
  exception leaves the block.
\<close>

definition check_persistent :: "io \<Rightarrow> string \<Rightarrow> cache_module \<Rightarrow> (error + string option) \<times> cache_module" where
  "check_persistent env key s =
     (case map_of (cache_dir s) key of
        None \<Rightarrow> count_miss s
      | Some f \<Rightarrow>
          if read_error env key then (Inl OSError, s)
          else (case content f of
              Undecodable \<Rightarrow> unlink_then_miss env key s
            | NotObject \<Rightarrow> (Inl AttributeError, s)
            | Object item \<Rightarrow>
                if is_cache_valid (now env) (ttl_hours s) item
                then (let s1 = s\<lparr>hits := hits s + 1,
                                  memory_cache := AList.update key item (memory_cache s)\<rparr>
                      in case response item of
                           Some r \<Rightarrow> (Inr (Some r), s1)
                         | None \<Rightarrow> unlink_then_miss env key s1)
                else unlink_then_miss env key s))"

definition lookup_body :: "io \<Rightarrow> string \<Rightarrow> cache_module \<Rightarrow> (error + string option) \<times> cache_module" where
  "lookup_body env key s =
     (case map_of (memory_cache s) key of
        Some item \<Rightarrow>
          if is_cache_valid (now env) (ttl_hours s) item
          then (let s1 = s\<lparr>hits := hits s + 1\<rparr>
                in case response item of
                     Some r \<Rightarrow> (Inr (Some r), s1)
                   | None \<Rightarrow> (Inl KeyError, s1))
          else check_persistent env key (s\<lparr>memory_cache := AList.delete key (memory_cache s)\<rparr>)
      | None \<Rightarrow> check_persistent env key s)"

text \<open>
  \<open>get_cached_response\<close> returns \<open>cached_item["response"]\<close>, the text, or \<open>None\<close>. The outer
  handler takes every exception, counts a miss and returns \<open>None\<close>.
\<close>

definition get_cached_response ::
  "(string \<Rightarrow> string) \<Rightarrow> io \<Rightarrow> cache_module \<Rightarrow> string \<Rightarrow> string option \<times> cache_module" where
  "get_cached_response md5 env s q =
     (let s0 = s\<lparr>total_requests := total_requests s + 1\<rparr>;
          key = generate_cache_key md5 q
      in case lookup_body env key s0 of
           (Inr v, s1) \<Rightarrow> (v, s1)
         | (Inl e, s1) \<Rightarrow> (None, s1\<lparr>misses := misses s1 + 1\<rparr>))"

subsection \<open>Store\<close>

definition store_persistent_cache :: "io \<Rightarrow> string \<Rightarrow> cached_item \<Rightarrow> cache_module \<Rightarrow> cache_module" where
  "store_persistent_cache env key item s =
     (if write_error env key then s
      else s\<lparr>cache_dir := AList.update key \<lparr>mtime = now env, content = Object item\<rparr> (cache_dir s)\<rparr>)"

text \<open>\<open>sources or []\<close>: the default \<open>None\<close> becomes the empty list. The \<open>metadata\<close> key is
  written and never read; it is left out.\<close>

definition cache_response ::
  "(string \<Rightarrow> string) \<Rightarrow> io \<Rightarrow> cache_module \<Rightarrow> string \<Rightarrow> string \<Rightarrow> string \<Rightarrow> string list option \<Rightarrow> cache_module" where
  "cache_response md5 env s q r d srcs =
     (let key = generate_cache_key md5 q;
          item = \<lparr>query = q, response = Some r, department = d,
                  sources = (case srcs of None \<Rightarrow> [] | Some l \<Rightarrow> l),
                  timestamp = Some (now env), cache_key = key\<rparr>
      in store_persistent_cache env key item
           (s\<lparr>memory_cache := AList.update key item (memory_cache s)\<rparr>))"

subsection \<open>Eviction\<close>

text \<open>
  \<open>sorted(items, key=k, reverse=True)\<close> is stable: CPython reverses the list, sorts it
  upwards and reverses it again, so equal keys keep the order they had. A timestamp that
  is absent is the default \<open>""\<close> of \<open>get\<close>, below every text; \<open>None\<close> is below every
  instant.
\<close>

definition sorted_reverse :: "('a \<Rightarrow> 'k::linorder) \<Rightarrow> 'a list \<Rightarrow> 'a list" where
  "sorted_reverse k xs = rev (sort_key k (rev xs))"

definition max_memory_items :: nat where
  "max_memory_items = 1000"

definition max_persistent_files :: nat where
  "max_persistent_files = 5000"

definition optimize_memory :: "cache_module \<Rightarrow> cache_module" where
  "optimize_memory s =
     (if length (memory_cache s) > max_memory_items
      then s\<lparr>memory_cache :=
               take max_memory_items (sorted_reverse (\<lambda>x. timestamp (snd x)) (memory_cache s))\<rparr>
      else s)"

text \<open>\<open>cache_file.unlink()\<close> inside \<open>try ... except OSError: pass\<close>.\<close>

definition try_unlink :: "io \<Rightarrow> cache_module \<Rightarrow> string \<Rightarrow> cache_module" where
  "try_unlink env s name =
     (if unlink_error env name then s
      else s\<lparr>cache_dir := AList.delete name (cache_dir s)\<rparr>)"

definition optimize_persistent :: "io \<Rightarrow> cache_module \<Rightarrow> cache_module" where
  "optimize_persistent env s =
     (let cache_files = cache_dir s in
      if length cache_files > max_persistent_files
      then (let sorted_files = sort_key (\<lambda>x. mtime (snd x)) cache_files;
                files_to_remove = take (length sorted_files - max_persistent_files) sorted_files
            in foldl (try_unlink env) s (map fst files_to_remove))
      else s)"

definition optimize_cache :: "io \<Rightarrow> cache_module \<Rightarrow> cache_module" where
  "optimize_cache env s = optimize_persistent env (optimize_memory s)"

subsection \<open>Statistics\<close>





subsection \<open>Runs of lookups\<close>




section \<open>Query pipeline\<close>

subsection \<open>Retrieval\<close>

text \<open>Of the dictionary the retriever returns, the keys the pipeline and the composer read.\<close>

record civic_info =
  info_department :: string
  info_contact :: string
  info_services :: "string list"
  info_sources :: "string list"

definition department_mapping :: "(string \<times> string) list" where
  "department_mapping = [
     (''water_supply'', ''Chennai_Metro_Water''),
     (''electricity'', ''TANGEDCO''),
     (''garbage_collection'', ''Greater_Chennai_Corporation''),
     (''roads'', ''Greater_Chennai_Corporation''),
     (''transport'', ''TNSTC'')]"

definition dept_contact :: "civic_data \<Rightarrow> string \<Rightarrow> string \<Rightarrow> string" where
  "dept_contact cd dept_key dflt =
     (case map_of (departments_complete cd) dept_key of
        None \<Rightarrow> dflt
      | Some dd \<Rightarrow> (case main_contact dd of None \<Rightarrow> dflt | Some c \<Rightarrow> c))"

definition dept_services :: "civic_data \<Rightarrow> string \<Rightarrow> string list" where
  "dept_services cd dept_key =
     (case map_of (departments_complete cd) dept_key of
        None \<Rightarrow> []
      | Some dd \<Rightarrow> (case services dd of None \<Rightarrow> [] | Some l \<Rightarrow> l))"

text \<open>\<open>RAGModule._get_department_info\<close> and \<open>_get_sources\<close>: the body of
  \<open>retrieve_information\<close> when nothing in it raises.\<close>

definition rag_department_info :: "civic_data \<Rightarrow> string \<Rightarrow> civic_info" where
  "rag_department_info cd issue_type =
     (let dept_key = (case map_of department_mapping issue_type of
                        None \<Rightarrow> ''Greater_Chennai_Corporation'' | Some k \<Rightarrow> k)
      in \<lparr>info_department = replace ''_'' '' '' dept_key,
          info_contact = dept_contact cd dept_key ''1913'',
          info_services = dept_services cd dept_key,
          info_sources = [''Live data from Chennai civic portals'',
                          ''Official department websites'',
                          ''Government notification systems'']\<rparr>)"

text \<open>\<open>RAGModule._get_fallback_info\<close>: the handler of \<open>retrieve_information\<close>.\<close>

definition rag_fallback_info :: "string \<Rightarrow> civic_info" where
  "rag_fallback_info issue_type =
     (if issue_type = ''water_supply''
      then \<lparr>info_department = ''Chennai Metro Water'', info_contact = ''044-4567-4567'',
            info_services = [''Water supply'', ''Sewerage'', ''New connections''],
            info_sources = [''Fallback civic information'']\<rparr>
      else if issue_type = ''electricity''
      then \<lparr>info_department = ''TANGEDCO'', info_contact = ''94987-94987'',
            info_services = [''Power supply'', ''Billing'', ''Complaints''],
            info_sources = [''Fallback civic information'']\<rparr>
      else \<lparr>info_department = ''Greater Chennai Corporation'', info_contact = ''1913'',
            info_services = [''Waste collection'', ''Street cleaning''],
            info_sources = [''Fallback civic information'']\<rparr>)"

definition retrieve_information :: "bool \<Rightarrow> civic_data \<Rightarrow> string \<Rightarrow> civic_info" where
  "retrieve_information raises cd issue_type =
     (if raises then rag_fallback_info issue_type else rag_department_info cd issue_type)"

text \<open>\<open>CivicMindAI.get_fallback_civic_info\<close>, used when there is no retriever module.\<close>

definition get_fallback_civic_info :: "civic_data \<Rightarrow> string \<Rightarrow> civic_info" where
  "get_fallback_civic_info cd issue_type =
     (if issue_type = ''water_supply''
      then \<lparr>info_department = ''Chennai Metro Water'',
            info_contact = dept_contact cd ''Chennai_Metro_Water'' ''044-4567-4567'',
            info_services = dept_services cd ''Chennai_Metro_Water'',
            info_sources = [''Chennai Metro Water Official Data'']\<rparr>
      else if issue_type = ''electricity''
      then \<lparr>info_department = ''TANGEDCO'',
            info_contact = dept_contact cd ''TANGEDCO'' ''94987-94987'',
            info_services = dept_services cd ''TANGEDCO'',
            info_sources = [''TANGEDCO Official Data'']\<rparr>
      else if issue_type = ''garbage_collection''
      then \<lparr>info_department = ''Greater Chennai Corporation'',
            info_contact = dept_contact cd ''Greater_Chennai_Corporation'' ''1913'',
            info_services = dept_services cd ''Greater_Chennai_Corporation'',
            info_sources = [''GCC Official Data'']\<rparr>
      else if issue_type = ''transport''
      then \<lparr>info_department = ''TNSTC'',
            info_contact = dept_contact cd ''TNSTC'' ''1800-599-1500'',
            info_services = dept_services cd ''TNSTC'',
            info_sources = [''TNSTC Official Data'']\<rparr>
      else \<lparr>info_department = ''Greater Chennai Corporation'',
            info_contact = ''1913'',
            info_services = [''General civic services''],
            info_sources = [''General civic information'']\<rparr>)"

definition retrieve_civic_information :: "bool \<Rightarrow> bool \<Rightarrow> civic_data \<Rightarrow> string \<Rightarrow> civic_info" where
  "retrieve_civic_information has_rag raises cd issue_type =
     (if has_rag then retrieve_information raises cd issue_type
      else get_fallback_civic_info cd issue_type)"

subsection \<open>Composition\<close>

definition nl :: string where
  "nl = [CHR 0x0A]"

definition indent :: string where
  "indent = ''        ''"

text \<open>The template of \<open>generate_fallback_response\<close>; \<open>area_info\<close> is \<open>None\<close> for the empty
  dictionary the handler of \<open>generate_ai_response\<close> passes.\<close>

definition generate_fallback_response :: "area_info option \<Rightarrow> string \<Rightarrow> civic_info \<Rightarrow> string" where
  "generate_fallback_response area issue_type info =
     (let dept = info_department info;
          contact = info_contact info;
          area_nm = (case area of None \<Rightarrow> ''your area'' | Some a \<Rightarrow> area_name a)
      in nl @ indent @ ''For '' @ replace ''_'' '' '' issue_type @ '' issues in '' @ area_nm
           @ '', please contact '' @ dept @ '' at '' @ contact @ ''.'' @ nl
         @ indent @ nl
         @ indent @ ''**Immediate Steps:**'' @ nl
         @ indent @ ''1. Call '' @ contact @ '' to register your complaint'' @ nl
         @ indent @ ''2. Note down the complaint number for tracking'' @ nl
         @ indent @ ''3. Provide exact address and description of issue'' @ nl
         @ indent @ nl
         @ indent @ ''**Expected Response Time:** 24-48 hours for most issues'' @ nl
         @ indent @ nl
         @ indent @ ''**Escalation:** If no response within expected time, contact the zone office or visit the department in person.'' @ nl
         @ indent @ nl
         @ indent @ ''For emergency issues, call immediately. Non-emergency issues can also be reported through official mobile apps or online portals.'' @ nl
         @ indent)"

text \<open>
  \<open>generate_ai_response\<close>: the chat completion is an outside call; \<open>completion\<close> is its
  message text, or \<open>None\<close> when anything in the \<open>try\<close> raises. The text is stripped;
  the handler composes from the template with an empty area and an empty issue type.
\<close>

definition generate_ai_response :: "string option \<Rightarrow> civic_info \<Rightarrow> string" where
  "generate_ai_response completion info =
     (case completion of
        Some text \<Rightarrow> strip text
      | None \<Rightarrow> generate_fallback_response None [] info)"

subsection \<open>Orchestration\<close>

text \<open>
  \<open>self.cache_module\<close> is a \<open>CacheModule\<close>, or the plain dictionary \<open>setup_basic_modules\<close>
  puts in its place when the modules cannot be built. The dictionary maps the hash of the
  lowered query to an entry with four keys.
\<close>

record dict_entry =
  entry_response :: string
  entry_department :: string
  entry_timestamp :: int
  entry_sources :: "string list"

datatype cache_slot = DictCache "(string \<times> dict_entry) list" | Module cache_module

text \<open>What \<open>check_cache\<close> hands back: an entry of the dictionary, or the text
  \<open>get_cached_response\<close> returns.\<close>

datatype cached = Entry dict_entry | Text string

record app =
  app_civic_data :: civic_data
  app_pincode_mapping :: pincode_mapping
  has_rag :: bool
  cache_slot :: cache_slot

text \<open>
  What one call of the pipeline sees of the outside: the two readings of \<open>time.time()\<close>
  (on entry, and where the result is built), the outside of the cache at the lookup and at
  the store, whether \<open>openai.api_key\<close> is set, the completion for a model, the retrieved
  information and a query, and whether the retriever's \<open>try\<close> raises. The knowledge-graph
  step, the interaction log and the list of response times leave no trace in the result
  and are left out.
\<close>

record env =
  start_time :: int
  end_time :: int
  lookup_io :: io
  store_io :: io
  api_key :: bool
  chat_completion :: "string \<Rightarrow> civic_info \<Rightarrow> string \<Rightarrow> string option"
  rag_raises :: bool

record pipeline_result =
  result_response :: string
  result_sources :: "string list"
  processing_time :: int
  cache_hit :: bool
  result_department :: string
  result_area :: "string option"
  result_issue_type :: "string option"
  result_error :: "error option"

definition check_cache :: "(string \<Rightarrow> string) \<Rightarrow> env \<Rightarrow> cache_slot \<Rightarrow> string \<Rightarrow> cached option \<times> cache_slot" where
  "check_cache md5 e slot q =
     (case slot of
        DictCache d \<Rightarrow> (map_option Entry (map_of d (md5 (lower q))), slot)
      | Module m \<Rightarrow>
          (case get_cached_response md5 (lookup_io e) m q of
             (v, m') \<Rightarrow> (map_option Text v, Module m')))"

definition app_cache_response :: "(string \<Rightarrow> string) \<Rightarrow> env \<Rightarrow> cache_slot \<Rightarrow> string \<Rightarrow> string \<Rightarrow> string \<Rightarrow> cache_slot" where
  "app_cache_response md5 e slot q r d =
     (case slot of
        DictCache dict \<Rightarrow>
          DictCache (AList.update (md5 (lower q))
            \<lparr>entry_response = r, entry_department = d,
             entry_timestamp = now (store_io e), entry_sources = []\<rparr> dict)
      | Module m \<Rightarrow> Module (cache_response md5 (store_io e) m q r d None))"

text \<open>\<open>if cached_response:\<close> an entry has four keys and is true; a text is true unless empty.\<close>

fun truthy :: "cached option \<Rightarrow> bool" where
  "truthy None = False"
| "truthy (Some (Entry en)) = True"
| "truthy (Some (Text t)) = (t \<noteq> [])"

definition apology :: string where
  "apology = ''I apologize, but I encountered an error processing your query. Please try again or contact support.''"

text \<open>The \<open>try\<close> block of \<open>process_civic_query\<close>. Subscripting a text with \<open>"response"\<close>
  raises \<open>TypeError\<close>.\<close>

definition process_body ::
  "(string \<Rightarrow> string) \<Rightarrow> env \<Rightarrow> app \<Rightarrow> string \<Rightarrow> string \<Rightarrow> (error + pipeline_result) \<times> app" where
  "process_body md5 e a q model =
     (case check_cache md5 e (cache_slot a) q of
        (cached_response, slot1) \<Rightarrow>
          (let a1 = a\<lparr>cache_slot := slot1\<rparr> in
           if truthy cached_response
           then (case cached_response of
                   Some (Entry en) \<Rightarrow>
                     (Inr \<lparr>result_response = entry_response en,
                           result_sources = entry_sources en,
                           processing_time = end_time e - start_time e,
                           cache_hit = True,
                           result_department = entry_department en,
                           result_area = None, result_issue_type = None,
                           result_error = None\<rparr>, a1)
                 | _ \<Rightarrow> (Inl TypeError, a1))
           else
             (let area = identify_area_from_query (app_civic_data a) (app_pincode_mapping a) q;
                  issue_type = identify_issue_type q;
                  info = retrieve_civic_information (has_rag a) (rag_raises e) (app_civic_data a) issue_type;
                  r = (if api_key e
                       then generate_ai_response (chat_completion e model info q) info
                       else generate_fallback_response (Some area) issue_type info);
                  slot2 = app_cache_response md5 e slot1 q r (info_department info)
              in (Inr \<lparr>result_response = r,
                        result_sources = info_sources info,
                        processing_time = end_time e - start_time e,
                        cache_hit = False,
                        result_department = info_department info,
                        result_area = Some (area_name area),
                        result_issue_type = Some issue_type,
                        result_error = None\<rparr>, a\<lparr>cache_slot := slot2\<rparr>))))"

definition process_civic_query ::
  "(string \<Rightarrow> string) \<Rightarrow> env \<Rightarrow> app \<Rightarrow> string \<Rightarrow> string \<Rightarrow> pipeline_result \<times> app" where
  "process_civic_query md5 e a q model =
     (case process_body md5 e a q model of
        (Inr res, a1) \<Rightarrow> (res, a1)
      | (Inl err, a1) \<Rightarrow>
          (\<lparr>result_response = apology,
            result_sources = [],
            processing_time = end_time e - start_time e,
            cache_hit = False,
            result_department = ''System'',
            result_area = None, result_issue_type = None,
            result_error = Some err\<rparr>, a1))"

section \<open>Sample data\<close>

definition sample_zone :: zone_data where
  "sample_zone = \<lparr>wards = [170, 171], ward_names = [''Adyar (East)'', ''Adyar (West)'']\<rparr>"

text \<open>An outside with the clock at a given instant and no failing file operation.\<close>

definition quiet_io :: "int \<Rightarrow> io" where
  "quiet_io t = \<lparr>now = t, read_error = (\<lambda>name. False), write_error = (\<lambda>name. False),
     unlink_error = (\<lambda>name. False)\<rparr>"


definition sample_item :: "string option \<Rightarrow> int option \<Rightarrow> cached_item" where
  "sample_item r t = \<lparr>query = ''water'', response = r, department = ''Chennai Metro Water'',
     sources = [], timestamp = t, cache_key = ''civic_query_water''\<rparr>"




text \<open>A cache with \<open>n\<close> items in memory and \<open>m\<close> files, item and file number \<open>i\<close> made at
  instant \<open>i\<close> under a name of \<open>i\<close> letters.\<close>

definition crowded_cache :: "nat \<Rightarrow> nat \<Rightarrow> cache_module" where
  "crowded_cache n m = (new_cache 24)\<lparr>
     memory_cache := map (\<lambda>i. (replicate i (CHR ''k''), sample_item (Some ''R'') (Some (int i)))) [0..<n],
     cache_dir := map (\<lambda>i. (replicate i (CHR ''k''),
        \<lparr>mtime = int i, content = Object (sample_item (Some ''R'') (Some (int i)))\<rparr>)) [0..<m]\<rparr>"

section \<open>Properties of the classifier\<close>

lemma py_in_iff: "py_in p s \<longleftrightarrow> (\<exists>a b. s = a @ p @ b)"
proof (induction s)
  case Nil
  show ?case by auto
next
  case (Cons c cs)
  show ?case
  proof
    assume "py_in p (c # cs)"
    then consider "prefix p (c # cs)" | "py_in p cs" by auto
    then show "\<exists>a b. c # cs = a @ p @ b"
    proof cases
      case 1
      then obtain b where "c # cs = p @ b" by (auto simp: prefix_def)
      then have "c # cs = [] @ p @ b" by simp
      then show ?thesis by blast
    next
      case 2
      then obtain a b where "cs = a @ p @ b" using Cons.IH by blast
      then have "c # cs = (c # a) @ p @ b" by simp
      then show ?thesis by blast
    qed
  next
    assume "\<exists>a b. c # cs = a @ p @ b"
    then obtain a b where ab: "c # cs = a @ p @ b" by blast
    show "py_in p (c # cs)"
    proof (cases a)
      case Nil
      then have "prefix p (c # cs)" using ab by (simp add: prefix_def)
      then show ?thesis by simp
    next
      case (Cons x a')
      then have "cs = a' @ p @ b" using ab by simp
      then have "py_in p cs" using Cons.IH by blast
      then show ?thesis by simp
    qed
  qed
qed

lemma check_zones_find:
  "check_zones ql zs =
     (case find (\<lambda>(zn, zd). py_in (lower (zone_display zn)) ql) zs of
        None \<Rightarrow> None
      | Some (zn, zd) \<Rightarrow> Some (Zone (zone_display zn) zn (wards zd) (ward_names zd)))"
  by (induction zs) auto

lemma check_pincode_find:
  "check_pincode q ql pm =
     (case find (\<lambda>(pc, a). py_in pc q \<or> py_in (lower a) ql) pm of
        None \<Rightarrow> None
      | Some (pc, a) \<Rightarrow> Some (PincodeArea a pc))"
proof (induction pm)
  case Nil
  show ?case by simp
next
  case (Cons p pm)
  then show ?case by (cases p) simp
qed

lemma check_common_areas_find:
  "check_common_areas ql as =
     (case find (\<lambda>a. py_in a ql) as of
        None \<Rightarrow> None
      | Some a \<Rightarrow> Some (Area (title a)))"
  by (induction as) auto

lemma find_Some_sound: "find P xs = Some y \<Longrightarrow> y \<in> set xs \<and> P y"
  by (induction xs) (auto split: if_splits)

lemma find_Some_ex: "x \<in> set xs \<Longrightarrow> P x \<Longrightarrow> \<exists>y. find P xs = Some y"
  by (induction xs) auto

text \<open>
  Claim C6. The area of a query is settled by the first rule that fires, without regard to
  letter case: the first zone of the table whose display name occurs in the query; else
  the first pincode entry whose digits occur in the query as typed or whose area name
  occurs in it; else the first of the well-known area names that occurs; else General
  "Chennai". So a query in which the display name of a zone of the table occurs is
  classified as a zone, with the display name of a zone that occurs in it, whatever
  pincode or area name it holds besides.
\<close>

theorem area_resolution_order:
  "identify_area_from_query cd pm q =
     (case find (\<lambda>(zn, zd). \<exists>a b. lower q = a @ lower (zone_display zn) @ b) (zones_complete cd) of
        Some (zn, zd) \<Rightarrow> Zone (zone_display zn) zn (wards zd) (ward_names zd)
      | None \<Rightarrow>
         (case find (\<lambda>(pc, ar). (\<exists>a b. q = a @ pc @ b) \<or> (\<exists>a b. lower q = a @ lower ar @ b)) pm of
            Some (pc, ar) \<Rightarrow> PincodeArea ar pc
          | None \<Rightarrow>
             (case find (\<lambda>ar. \<exists>a b. lower q = a @ ar @ b) common_areas of
                Some ar \<Rightarrow> Area (title ar)
              | None \<Rightarrow> General ''Chennai'')))
   \<and> ((zn, zd) \<in> set (zones_complete cd) \<longrightarrow> lower q = a @ lower (zone_display zn) @ b \<longrightarrow>
        area_type (identify_area_from_query cd pm q) = ''zone'' \<and>
        (\<exists>zn' zd' a' b'. (zn', zd') \<in> set (zones_complete cd) \<and>
            identify_area_from_query cd pm q = Zone (zone_display zn') zn' (wards zd') (ward_names zd') \<and>
            lower q = a' @ lower (zone_display zn') @ b'))"
proof -
  let ?Z = "\<lambda>(zn, zd). \<exists>a b. lower q = a @ lower (zone_display zn) @ b"
  have eq: "identify_area_from_query cd pm q =
     (case find ?Z (zones_complete cd) of
        Some (zn, zd) \<Rightarrow> Zone (zone_display zn) zn (wards zd) (ward_names zd)
      | None \<Rightarrow>
         (case find (\<lambda>(pc, ar). (\<exists>a b. q = a @ pc @ b) \<or> (\<exists>a b. lower q = a @ lower ar @ b)) pm of
            Some (pc, ar) \<Rightarrow> PincodeArea ar pc
          | None \<Rightarrow>
             (case find (\<lambda>ar. \<exists>a b. lower q = a @ ar @ b) common_areas of
                Some ar \<Rightarrow> Area (title ar)
              | None \<Rightarrow> General ''Chennai'')))"
    unfolding identify_area_from_query_def Let_def
      check_zones_find check_pincode_find check_common_areas_find py_in_iff
    by (simp split: option.splits prod.splits)
  have part: "area_type (identify_area_from_query cd pm q) = ''zone'' \<and>
        (\<exists>zn' zd' a' b'. (zn', zd') \<in> set (zones_complete cd) \<and>
            identify_area_from_query cd pm q = Zone (zone_display zn') zn' (wards zd') (ward_names zd') \<and>
            lower q = a' @ lower (zone_display zn') @ b')"
    if mem: "(zn, zd) \<in> set (zones_complete cd)" and occ: "lower q = a @ lower (zone_display zn) @ b"
  proof -
    have "?Z (zn, zd)" using occ by blast
    then obtain y where y: "find ?Z (zones_complete cd) = Some y"
      using find_Some_ex [OF mem, of ?Z] by blast
    obtain zn' zd' where y': "y = (zn', zd')" by (cases y)
    have "(zn', zd') \<in> set (zones_complete cd)" and "?Z (zn', zd')"
      using find_Some_sound [OF y] y' by auto
    moreover have "identify_area_from_query cd pm q = Zone (zone_display zn') zn' (wards zd') (ward_names zd')"
      using eq y y' by simp
    ultimately show ?thesis by auto
  qed
  show ?thesis using eq part by blast
qed



theorem area_resolution_order_witness:
  "(''Zone_13_Adyar'', sample_zone) \<in> set (zones_complete (get_fallback_civic_data\<lparr>zones_complete := [(''Zone_13_Adyar'', sample_zone)]\<rparr>))
   \<and> lower ''Leak near 13 ADYAR 600020 mylapore'' = ''leak near '' @ lower (zone_display ''Zone_13_Adyar'') @ '' 600020 mylapore''
   \<and> area_type (identify_area_from_query (get_fallback_civic_data\<lparr>zones_complete := [(''Zone_13_Adyar'', sample_zone)]\<rparr>)
        get_fallback_pincode_data ''Leak near 13 ADYAR 600020 mylapore'') = ''zone''"
proof -
  let ?cd = "get_fallback_civic_data\<lparr>zones_complete := [(''Zone_13_Adyar'', sample_zone)]\<rparr>"
  have h1: "(''Zone_13_Adyar'', sample_zone) \<in> set (zones_complete ?cd)" by simp
  have h2: "lower ''Leak near 13 ADYAR 600020 mylapore''
      = ''leak near '' @ lower (zone_display ''Zone_13_Adyar'') @ '' 600020 mylapore''"
    by code_simp
  from area_resolution_order [of ?cd get_fallback_pincode_data "''Leak near 13 ADYAR 600020 mylapore''"
      "''Zone_13_Adyar''" sample_zone "''leak near ''" "'' 600020 mylapore''"] h1 h2
  show ?thesis by blast
qed










section \<open>Properties of the response cache\<close>



text \<open>
  Claim C3. After a store, the lookup of the same query within the time to live finds the
  entry, but what it returns is the response text alone: the department and the sources
  that were stored do not come back, so two stores that differ in them give the same
  lookup result.
\<close>

theorem lookup_returns_text_only:
  "fst (get_cached_response md5 (quiet_io 1)
          (cache_response md5 (quiet_io 0) (new_cache 24) ''water'' ''R'' ''D1'' (Some [''S1'']))
          ''water'') = Some ''R''
   \<and> fst (get_cached_response md5 (quiet_io 1)
          (cache_response md5 (quiet_io 0) (new_cache 24) ''water'' ''R'' ''D2'' (Some [''S2'']))
          ''water'') = Some ''R''"
  by (simp add: get_cached_response_def cache_response_def lookup_body_def new_cache_def
      quiet_io_def store_persistent_cache_def is_cache_valid_def hour_def Let_def update_conv')




















end
